theory Spec2Isabelle
  imports Main "HOL-Library.Sublist"
begin

section \<open>The in-memory banking ledger of banking-services/database.js\<close>

text \<open>
  The module keeps one mutable object \<^verbatim>\<open>db\<close> with four tables. Every exported
  operation reads and writes that object, so each operation is modelled as a function
  from the state before the call to the result and the state after it.

  Amounts and balances are JavaScript numbers in the source. They are modelled as
  integers (minor currency units): on integers up to \<open>2^53\<close> in magnitude the
  JavaScript \<^verbatim>\<open>+\<close>, \<^verbatim>\<open>-\<close> and \<^verbatim>\<open><\<close> are exact and agree with the ones used
  here. Beyond that the source rounds; the operations whose property depends on it
  are given a second time with the rounding addition (the definitions ending in
  \<open>_f64\<close>).

  \<^verbatim>\<open>uuidv4()\<close> and \<^verbatim>\<open>new Date()\<close> are inputs from the environment: the functions
  that call them take the generated identifier and the clock reading as arguments.
  A timestamp is the clock reading in milliseconds (the source stores its ISO rendering).
\<close>

subsection \<open>Tables\<close>

datatype transaction_type = Deposit | Withdrawal | Transfer

datatype transaction_status = Pending | Completed | Failed

record customer =
  customer_id :: string
  name :: string
  email :: string
  accountNumber :: string
  balance :: int

record txn =
  txn_id :: string
  timestamp :: int
  status :: transaction_status
  txn_accountNumber :: string
  destinationAccount :: "string option"
  txn_type :: transaction_type
  amount :: int
  reason :: "string option"

record analytics =
  activeSessions :: nat
  totalTransactions :: nat
  depositTotal :: int
  withdrawalTotal :: int
  transferTotal :: int

record db =
  customers :: "customer list"
  transactions :: "txn list"
  sessions :: "string list"
  analytics :: analytics

text \<open>The tables as the module initialises them; \<open>now\<close> is \<^verbatim>\<open>Date.now()\<close> at load time.\<close>

definition seed_db :: "int \<Rightarrow> db" where
  "seed_db now =
    \<lparr> customers =
        [ \<lparr> customer_id = ''1'', name = ''John Doe'', email = ''john@example.com'',
            accountNumber = ''10001'', balance = 5000 \<rparr>,
          \<lparr> customer_id = ''2'', name = ''Jane Smith'', email = ''jane@example.com'',
            accountNumber = ''10002'', balance = 7500 \<rparr>,
          \<lparr> customer_id = ''3'', name = ''Robert Johnson'', email = ''robert@example.com'',
            accountNumber = ''10003'', balance = 12000 \<rparr> ],
      transactions =
        [ \<lparr> txn_id = ''t1'', timestamp = now - 86400000, status = Completed,
            txn_accountNumber = ''10001'', destinationAccount = None,
            txn_type = Deposit, amount = 1000, reason = None \<rparr>,
          \<lparr> txn_id = ''t2'', timestamp = now - 43200000, status = Completed,
            txn_accountNumber = ''10002'', destinationAccount = None,
            txn_type = Withdrawal, amount = 500, reason = None \<rparr>,
          \<lparr> txn_id = ''t3'', timestamp = now - 21600000, status = Completed,
            txn_accountNumber = ''10001'', destinationAccount = Some ''10003'',
            txn_type = Transfer, amount = 750, reason = None \<rparr> ],
      sessions = [],
      analytics =
        \<lparr> activeSessions = 0, totalTransactions = 3, depositTotal = 1000,
          withdrawalTotal = 500, transferTotal = 750 \<rparr> \<rparr>"

subsection \<open>Array helpers\<close>

text \<open>
  \<^verbatim>\<open>xs.find(p)\<close> is \<^const>\<open>find\<close>. An assignment to a field of the object that
  \<^verbatim>\<open>find\<close> returned changes the first element that satisfies \<open>p\<close> in place.
\<close>

fun update_first :: "('a \<Rightarrow> bool) \<Rightarrow> ('a \<Rightarrow> 'a) \<Rightarrow> 'a list \<Rightarrow> 'a list" where
  "update_first p f [] = []"
| "update_first p f (x # xs) = (if p x then f x # xs else x # update_first p f xs)"

text \<open>\<^verbatim>\<open>xs.indexOf(x)\<close>, with \<open>None\<close> for the source's \<open>-1\<close>.\<close>

fun indexOf :: "'a list \<Rightarrow> 'a \<Rightarrow> nat option" where
  "indexOf [] x = None"
| "indexOf (y # ys) x = (if y = x then Some 0 else map_option Suc (indexOf ys x))"

text \<open>\<^verbatim>\<open>xs.splice(i, 1)\<close>: the element at index \<open>i\<close> is removed.\<close>

definition splice1 :: "nat \<Rightarrow> 'a list \<Rightarrow> 'a list" where
  "splice1 i xs = take i xs @ drop (Suc i) xs"

subsection \<open>customerOperations\<close>

definition getCustomerByAccountNumber :: "string \<Rightarrow> db \<Rightarrow> customer option" where
  "getCustomerByAccountNumber acc d = find (\<lambda>c. accountNumber c = acc) (customers d)"

definition getCustomerBalance :: "string \<Rightarrow> db \<Rightarrow> int option" where
  "getCustomerBalance acc d =
    (case find (\<lambda>c. accountNumber c = acc) (customers d) of
       Some c \<Rightarrow> Some (balance c)
     | None \<Rightarrow> None)"

definition updateCustomerBalance :: "string \<Rightarrow> int \<Rightarrow> db \<Rightarrow> bool \<times> db" where
  "updateCustomerBalance acc amt d =
    (case find (\<lambda>c. accountNumber c = acc) (customers d) of
       Some c \<Rightarrow>
         (True, d\<lparr>customers :=
            update_first (\<lambda>c. accountNumber c = acc)
              (\<lambda>c. c\<lparr>balance := balance c + amt\<rparr>) (customers d)\<rparr>)
     | None \<Rightarrow> (False, d))"

subsection \<open>transactionOperations\<close>


text \<open>
  The object literal a caller passes to \<^verbatim>\<open>createTransaction\<close>. The callers in the
  module always give \<^verbatim>\<open>accountNumber\<close>, \<^verbatim>\<open>type\<close> and \<^verbatim>\<open>amount\<close>; the other keys are
  optional, and a key that is present overrides the default written before the
  spread (\<^verbatim>\<open>status: 'pending', ...transaction\<close>).
\<close>

record txn_fields =
  f_accountNumber :: string
  f_destinationAccount :: "string option"
  f_type :: transaction_type
  f_amount :: int
  f_status :: "transaction_status option"
  f_reason :: "string option"

definition createTransaction :: "string \<Rightarrow> int \<Rightarrow> txn_fields \<Rightarrow> db \<Rightarrow> txn \<times> db" where
  "createTransaction uuid now f d =
    (let newTransaction =
           \<lparr> txn_id = uuid, timestamp = now,
             status = (case f_status f of None \<Rightarrow> Pending | Some s \<Rightarrow> s),
             txn_accountNumber = f_accountNumber f,
             destinationAccount = f_destinationAccount f,
             txn_type = f_type f, amount = f_amount f, reason = f_reason f \<rparr>;
         a0 = analytics d;
         a1 = a0\<lparr>totalTransactions := totalTransactions a0 + 1\<rparr>;
         a2 = (if f_type f = Deposit then a1\<lparr>depositTotal := depositTotal a1 + f_amount f\<rparr>
               else if f_type f = Withdrawal
                 then a1\<lparr>withdrawalTotal := withdrawalTotal a1 + f_amount f\<rparr>
               else if f_type f = Transfer
                 then a1\<lparr>transferTotal := transferTotal a1 + f_amount f\<rparr>
               else a1)
     in (newTransaction,
         d\<lparr>transactions := transactions d @ [newTransaction], analytics := a2\<rparr>))"

definition updateTransactionStatus ::
  "string \<Rightarrow> transaction_status \<Rightarrow> db \<Rightarrow> txn option \<times> db" where
  "updateTransactionStatus i s d =
    (case find (\<lambda>t. txn_id t = i) (transactions d) of
       Some t \<Rightarrow>
         (Some (t\<lparr>status := s\<rparr>),
          d\<lparr>transactions :=
            update_first (\<lambda>t. txn_id t = i) (\<lambda>t. t\<lparr>status := s\<rparr>) (transactions d)\<rparr>)
     | None \<Rightarrow> (None, d))"

text \<open>
  What the three settlement operations return: \<^verbatim>\<open>{ success, transaction, reason }\<close>.
  The \<^verbatim>\<open>transaction\<close> in it is the very object that \<^verbatim>\<open>createTransaction\<close> pushed on
  the log, so the caller sees it as it is when the operation returns: it is read
  back from the end of the log (nothing is pushed after it within the operation).
\<close>

record result =
  success :: bool
  transaction :: txn
  result_reason :: "string option"

definition processDeposit :: "string \<Rightarrow> int \<Rightarrow> string \<Rightarrow> int \<Rightarrow> db \<Rightarrow> result \<times> db" where
  "processDeposit uuid now acc amt d =
    (let (t, d1) = createTransaction uuid now
           \<lparr> f_accountNumber = acc, f_destinationAccount = None, f_type = Deposit,
             f_amount = amt, f_status = None, f_reason = None \<rparr> d;
         (ok, d2) = updateCustomerBalance acc amt d1
     in if ok
        then (let (_, d3) = updateTransactionStatus (txn_id t) Completed d2
              in (\<lparr> success = True, transaction = last (transactions d3),
                    result_reason = None \<rparr>, d3))
        else (let (_, d3) = updateTransactionStatus (txn_id t) Failed d2
              in (\<lparr> success = False, transaction = last (transactions d3),
                    result_reason = None \<rparr>, d3)))"

definition processWithdrawal :: "string \<Rightarrow> int \<Rightarrow> string \<Rightarrow> int \<Rightarrow> db \<Rightarrow> result \<times> db" where
  "processWithdrawal uuid now acc amt d =
    (if (case getCustomerBalance acc d of None \<Rightarrow> True | Some bal \<Rightarrow> bal < amt)
        then (let (t, d1) = createTransaction uuid now
                    \<lparr> f_accountNumber = acc, f_destinationAccount = None,
                      f_type = Withdrawal, f_amount = amt, f_status = Some Failed,
                      f_reason = Some ''Insufficient funds'' \<rparr> d
              in (\<lparr> success = False, transaction = last (transactions d1),
                    result_reason = Some ''Insufficient funds'' \<rparr>, d1))
        else (let (t, d1) = createTransaction uuid now
                    \<lparr> f_accountNumber = acc, f_destinationAccount = None,
                      f_type = Withdrawal, f_amount = amt, f_status = None,
                      f_reason = None \<rparr> d;
                  (ok, d2) = updateCustomerBalance acc (- amt) d1
              in if ok
                 then (let (_, d3) = updateTransactionStatus (txn_id t) Completed d2
                       in (\<lparr> success = True, transaction = last (transactions d3),
                             result_reason = None \<rparr>, d3))
                 else (let (_, d3) = updateTransactionStatus (txn_id t) Failed d2
                       in (\<lparr> success = False, transaction = last (transactions d3),
                             result_reason = None \<rparr>, d3))))"

definition processTransfer ::
  "string \<Rightarrow> int \<Rightarrow> string \<Rightarrow> string \<Rightarrow> int \<Rightarrow> db \<Rightarrow> result \<times> db" where
  "processTransfer uuid now src dst amt d =
    (if (case getCustomerBalance src d of
           None \<Rightarrow> True | Some sourceBalance \<Rightarrow> sourceBalance < amt)
        then (let (t, d1) = createTransaction uuid now
                    \<lparr> f_accountNumber = src, f_destinationAccount = Some dst,
                      f_type = Transfer, f_amount = amt, f_status = Some Failed,
                      f_reason = Some ''Insufficient funds'' \<rparr> d
              in (\<lparr> success = False, transaction = last (transactions d1),
                    result_reason = Some ''Insufficient funds'' \<rparr>, d1))
        else if getCustomerByAccountNumber dst d = None
        then (let (t, d1) = createTransaction uuid now
                    \<lparr> f_accountNumber = src, f_destinationAccount = Some dst,
                      f_type = Transfer, f_amount = amt, f_status = Some Failed,
                      f_reason = Some ''Destination account not found'' \<rparr> d
              in (\<lparr> success = False, transaction = last (transactions d1),
                    result_reason = Some ''Destination account not found'' \<rparr>, d1))
        else (let (t, d1) = createTransaction uuid now
                    \<lparr> f_accountNumber = src, f_destinationAccount = Some dst,
                      f_type = Transfer, f_amount = amt, f_status = None,
                      f_reason = None \<rparr> d;
                  (sourceUpdate, d2) = updateCustomerBalance src (- amt) d1;
                  (destUpdate, d3) = updateCustomerBalance dst amt d2
              in if sourceUpdate \<and> destUpdate
                 then (let (_, d4) = updateTransactionStatus (txn_id t) Completed d3
                       in (\<lparr> success = True, transaction = last (transactions d4),
                             result_reason = None \<rparr>, d4))
                 else (let d4 = (if sourceUpdate
                                 then snd (updateCustomerBalance src amt d3) else d3);
                           (_, d5) = updateTransactionStatus (txn_id t) Failed d4
                       in (\<lparr> success = False, transaction = last (transactions d5),
                             result_reason = None \<rparr>, d5))))"

subsection \<open>analyticsOperations\<close>

record summary =
  totalCount :: nat
  completedCount :: nat
  pendingCount :: nat
  failedCount :: nat
  summary_depositTotal :: int
  summary_withdrawalTotal :: int
  summary_transferTotal :: int

definition getTransactionSummary :: "db \<Rightarrow> summary" where
  "getTransactionSummary d =
    \<lparr> totalCount = length (transactions d),
      completedCount = length (filter (\<lambda>t. status t = Completed) (transactions d)),
      pendingCount = length (filter (\<lambda>t. status t = Pending) (transactions d)),
      failedCount = length (filter (\<lambda>t. status t = Failed) (transactions d)),
      summary_depositTotal = depositTotal (analytics d),
      summary_withdrawalTotal = withdrawalTotal (analytics d),
      summary_transferTotal = transferTotal (analytics d) \<rparr>"

text \<open>
  \<^verbatim>\<open>trackSession(sessionId, active = true)\<close>: a caller that leaves \<open>active\<close> out
  calls it with \<open>True\<close>. The call returns the new \<open>activeSessions\<close>.
\<close>

definition trackSession :: "string \<Rightarrow> bool \<Rightarrow> db \<Rightarrow> nat \<times> db" where
  "trackSession sessionId active d =
    (if active
     then (let d1 = d\<lparr>sessions := sessions d @ [sessionId]\<rparr>;
               d2 = d1\<lparr>analytics := (analytics d1)\<lparr>activeSessions := length (sessions d1)\<rparr>\<rparr>
           in (activeSessions (analytics d2), d2))
     else (let d1 = (case indexOf (sessions d) sessionId of
                       Some i \<Rightarrow> d\<lparr>sessions := splice1 i (sessions d)\<rparr>
                     | None \<Rightarrow> d);
               d2 = d1\<lparr>analytics := (analytics d1)\<lparr>activeSessions := length (sessions d1)\<rparr>\<rparr>
           in (activeSessions (analytics d2), d2)))"

subsection \<open>Sequences of calls\<close>

text \<open>
  A call of the module by the request router, together with the identifier and the
  clock reading the environment hands out during it.
\<close>

datatype call =
    CallDeposit string int
  | CallWithdrawal string int
  | CallTransfer string string int
  | CallTrackSession string bool

fun step :: "(string \<times> int) \<times> call \<Rightarrow> db \<Rightarrow> db" where
  "step ((uuid, now), CallDeposit acc amt) d = snd (processDeposit uuid now acc amt d)"
| "step ((uuid, now), CallWithdrawal acc amt) d = snd (processWithdrawal uuid now acc amt d)"
| "step ((uuid, now), CallTransfer src dst amt) d = snd (processTransfer uuid now src dst amt d)"
| "step ((uuid, now), CallTrackSession sid active) d = snd (trackSession sid active d)"

definition run :: "((string \<times> int) \<times> call) list \<Rightarrow> db \<Rightarrow> db" where
  "run cs d = fold step cs d"

subsection \<open>Quantities the properties speak about\<close>

text \<open>The sum of all account balances.\<close>

definition total_balance :: "db \<Rightarrow> int" where
  "total_balance d = sum_list (map balance (customers d))"

text \<open>The sum of \<open>amount\<close> over the log entries of one type, whatever their status.\<close>

definition logged_total :: "transaction_type \<Rightarrow> db \<Rightarrow> int" where
  "logged_total ty d = sum_list (map amount (filter (\<lambda>t. txn_type t = ty) (transactions d)))"


text \<open>
  An identifier is fresh for a state when no log entry carries it. This is what the
  source relies on \<^verbatim>\<open>uuidv4()\<close> for: \<^verbatim>\<open>updateTransactionStatus\<close> finds a record by
  its identifier, and with a fresh one it finds the record just created.
\<close>

definition fresh :: "string \<Rightarrow> db \<Rightarrow> bool" where
  "fresh uuid d = (uuid \<notin> txn_id ` set (transactions d))"

text \<open>
  No account balance becomes negative between two states: the accounts are the same,
  in the same order, and one that was not negative before is not negative after.
\<close>

definition none_becomes_negative :: "db \<Rightarrow> db \<Rightarrow> bool" where
  "none_becomes_negative d d' =
    list_all2 (\<lambda>c c'. accountNumber c' = accountNumber c \<and> (0 \<le> balance c \<longrightarrow> 0 \<le> balance c'))
      (customers d) (customers d')"


text \<open>
  The guard of \<^verbatim>\<open>processWithdrawal\<close> and \<^verbatim>\<open>processTransfer\<close>,
  \<^verbatim>\<open>balance === null || balance < amount\<close>, in words: the account is missing, or its
  balance is strictly less than the amount.
\<close>

definition insufficient :: "string \<Rightarrow> int \<Rightarrow> db \<Rightarrow> bool" where
  "insufficient acc amt d =
    (case getCustomerBalance acc d of None \<Rightarrow> True | Some bal \<Rightarrow> bal < amt)"

subsection \<open>The number arithmetic of the source\<close>

text \<open>
  The definitions above add exact integers. A JavaScript number is an IEEE-754 double,
  and on integers the sum the source computes is the exact sum rounded to the nearest
  double, a tie going to the even significand. Every integer of magnitude up to
  \<open>2^53\<close> is a double, so up to there the two agree; beyond, neighbouring doubles are
  2, 4, 8, ... apart. \<open>quantum n\<close> is that distance at magnitude \<open>n\<close>, and
  \<open>double_add\<close> is the addition of the source on integers. (Fractions, and sums of
  magnitude \<open>2^1024\<close> or more, which give \<^verbatim>\<open>Infinity\<close>, are outside this model.)
\<close>

fun quantum :: "nat \<Rightarrow> nat" where
  "quantum n = (if n < 2 ^ 53 then 1 else 2 * quantum (n div 2))"

declare quantum.simps [simp del]

definition double_round :: "int \<Rightarrow> int" where
  "double_round x =
    (let n = nat \<bar>x\<bar>; q = quantum n; m = n div q; r = n mod q;
         m' = (if q < 2 * r \<or> (2 * r = q \<and> odd m) then m + 1 else m)
     in sgn x * int (m' * q))"

definition double_add :: "int \<Rightarrow> int \<Rightarrow> int" where
  "double_add x y = double_round (x + y)"

text \<open>
  The sum of all account balances as the source's own arithmetic gives it, added up
  from the left starting at 0.
\<close>

definition double_total :: "db \<Rightarrow> int" where
  "double_total d = foldl double_add 0 (map balance (customers d))"

text \<open>
  The operations that move money into and between accounts, with every \<^verbatim>\<open>+=\<close> of
  the source as \<open>double_add\<close>. They differ from \<open>updateCustomerBalance\<close>,
  \<open>createTransaction\<close>, \<open>processDeposit\<close> and \<open>processTransfer\<close> above in the
  additions only, and are what the conservation of the balance sum is stated about:
  that property turns on the rounding.
\<close>

definition updateCustomerBalance_f64 :: "string \<Rightarrow> int \<Rightarrow> db \<Rightarrow> bool \<times> db" where
  "updateCustomerBalance_f64 acc amt d =
    (case find (\<lambda>c. accountNumber c = acc) (customers d) of
       Some c \<Rightarrow>
         (True, d\<lparr>customers :=
            update_first (\<lambda>c. accountNumber c = acc)
              (\<lambda>c. c\<lparr>balance := double_add (balance c) amt\<rparr>) (customers d)\<rparr>)
     | None \<Rightarrow> (False, d))"

definition createTransaction_f64 :: "string \<Rightarrow> int \<Rightarrow> txn_fields \<Rightarrow> db \<Rightarrow> txn \<times> db" where
  "createTransaction_f64 uuid now f d =
    (let newTransaction =
           \<lparr> txn_id = uuid, timestamp = now,
             status = (case f_status f of None \<Rightarrow> Pending | Some s \<Rightarrow> s),
             txn_accountNumber = f_accountNumber f,
             destinationAccount = f_destinationAccount f,
             txn_type = f_type f, amount = f_amount f, reason = f_reason f \<rparr>;
         a0 = analytics d;
         a1 = a0\<lparr>totalTransactions := totalTransactions a0 + 1\<rparr>;
         a2 = (if f_type f = Deposit
                 then a1\<lparr>depositTotal := double_add (depositTotal a1) (f_amount f)\<rparr>
               else if f_type f = Withdrawal
                 then a1\<lparr>withdrawalTotal := double_add (withdrawalTotal a1) (f_amount f)\<rparr>
               else if f_type f = Transfer
                 then a1\<lparr>transferTotal := double_add (transferTotal a1) (f_amount f)\<rparr>
               else a1)
     in (newTransaction,
         d\<lparr>transactions := transactions d @ [newTransaction], analytics := a2\<rparr>))"

definition processDeposit_f64 :: "string \<Rightarrow> int \<Rightarrow> string \<Rightarrow> int \<Rightarrow> db \<Rightarrow> result \<times> db" where
  "processDeposit_f64 uuid now acc amt d =
    (let (t, d1) = createTransaction_f64 uuid now
           \<lparr> f_accountNumber = acc, f_destinationAccount = None, f_type = Deposit,
             f_amount = amt, f_status = None, f_reason = None \<rparr> d;
         (ok, d2) = updateCustomerBalance_f64 acc amt d1
     in if ok
        then (let (_, d3) = updateTransactionStatus (txn_id t) Completed d2
              in (\<lparr> success = True, transaction = last (transactions d3),
                    result_reason = None \<rparr>, d3))
        else (let (_, d3) = updateTransactionStatus (txn_id t) Failed d2
              in (\<lparr> success = False, transaction = last (transactions d3),
                    result_reason = None \<rparr>, d3)))"

definition processTransfer_f64 ::
  "string \<Rightarrow> int \<Rightarrow> string \<Rightarrow> string \<Rightarrow> int \<Rightarrow> db \<Rightarrow> result \<times> db" where
  "processTransfer_f64 uuid now src dst amt d =
    (if (case getCustomerBalance src d of
           None \<Rightarrow> True | Some sourceBalance \<Rightarrow> sourceBalance < amt)
     then (let (t, d1) = createTransaction_f64 uuid now
                 \<lparr> f_accountNumber = src, f_destinationAccount = Some dst,
                   f_type = Transfer, f_amount = amt, f_status = Some Failed,
                   f_reason = Some ''Insufficient funds'' \<rparr> d
           in (\<lparr> success = False, transaction = last (transactions d1),
                 result_reason = Some ''Insufficient funds'' \<rparr>, d1))
     else if getCustomerByAccountNumber dst d = None
     then (let (t, d1) = createTransaction_f64 uuid now
                 \<lparr> f_accountNumber = src, f_destinationAccount = Some dst,
                   f_type = Transfer, f_amount = amt, f_status = Some Failed,
                   f_reason = Some ''Destination account not found'' \<rparr> d
           in (\<lparr> success = False, transaction = last (transactions d1),
                 result_reason = Some ''Destination account not found'' \<rparr>, d1))
     else (let (t, d1) = createTransaction_f64 uuid now
                 \<lparr> f_accountNumber = src, f_destinationAccount = Some dst,
                   f_type = Transfer, f_amount = amt, f_status = None,
                   f_reason = None \<rparr> d;
               (sourceUpdate, d2) = updateCustomerBalance_f64 src (- amt) d1;
               (destUpdate, d3) = updateCustomerBalance_f64 dst amt d2
           in if sourceUpdate \<and> destUpdate
              then (let (_, d4) = updateTransactionStatus (txn_id t) Completed d3
                    in (\<lparr> success = True, transaction = last (transactions d4),
                          result_reason = None \<rparr>, d4))
              else (let d4 = (if sourceUpdate
                              then snd (updateCustomerBalance_f64 src amt d3) else d3);
                        (_, d5) = updateTransactionStatus (txn_id t) Failed d4
                    in (\<lparr> success = False, transaction = last (transactions d5),
                          result_reason = None \<rparr>, d5))))"

text \<open>
  The seeded state after a deposit of 1 to account 10002 and a deposit of \<open>2^53\<close> to
  account 10001.
\<close>

definition large_balance_state :: db where
  "large_balance_state =
    snd (processDeposit_f64 ''u5'' 2 ''10001'' 9007199254740992
      (snd (processDeposit_f64 ''u4'' 1 ''10002'' 1 (seed_db 0))))"

section \<open>Facts about the primitives\<close>

subsection \<open>The array helpers\<close>

lemma update_first_length [simp]: "length (update_first p f xs) = length xs"
  by (induction xs) auto

lemma update_first_none:
  "find p xs = None \<Longrightarrow> update_first p f xs = xs"
  by (induction xs) (auto split: if_splits)


lemma find_update_first_balance:
  "find (\<lambda>c. accountNumber c = a)
     (update_first (\<lambda>c. accountNumber c = b) (\<lambda>c. c\<lparr>balance := balance c + k\<rparr>) xs)
   = map_option (\<lambda>c. if a = b then c\<lparr>balance := balance c + k\<rparr> else c)
       (find (\<lambda>c. accountNumber c = a) xs)"
  by (induction xs) (auto simp: option.map_ident)

lemma update_txn_fresh:
  "u \<notin> txn_id ` set ts \<Longrightarrow> txn_id t = u \<Longrightarrow>
   update_first (\<lambda>t. txn_id t = u) f (ts @ [t]) = ts @ [f t]"
  by (induction ts) auto

subsection \<open>createTransaction\<close>

lemma createTransaction_fst:
  "fst (createTransaction u n f d) =
     \<lparr> txn_id = u, timestamp = n,
       status = (case f_status f of None \<Rightarrow> Pending | Some s \<Rightarrow> s),
       txn_accountNumber = f_accountNumber f,
       destinationAccount = f_destinationAccount f,
       txn_type = f_type f, amount = f_amount f, reason = f_reason f \<rparr>"
  by (simp add: createTransaction_def Let_def)

lemma createTransaction_customers [simp]:
  "customers (snd (createTransaction u n f d)) = customers d"
  by (simp add: createTransaction_def Let_def)

lemma createTransaction_sessions [simp]:
  "sessions (snd (createTransaction u n f d)) = sessions d"
  by (simp add: createTransaction_def Let_def)

lemma createTransaction_transactions:
  "transactions (snd (createTransaction u n f d)) =
     transactions d @ [fst (createTransaction u n f d)]"
  by (simp add: createTransaction_def Let_def)


lemma createTransaction_reads [simp]:
  "total_balance (snd (createTransaction u n f d)) = total_balance d"
  "getCustomerByAccountNumber a (snd (createTransaction u n f d)) = getCustomerByAccountNumber a d"
  "getCustomerBalance a (snd (createTransaction u n f d)) = getCustomerBalance a d"
  by (simp_all add: total_balance_def getCustomerByAccountNumber_def getCustomerBalance_def)

subsection \<open>updateCustomerBalance\<close>

lemma getCustomerBalance_alt:
  "getCustomerBalance a d = map_option balance (getCustomerByAccountNumber a d)"
  by (simp add: getCustomerBalance_def getCustomerByAccountNumber_def split: option.splits)

lemma updateCustomerBalance_fst:
  "fst (updateCustomerBalance a k d) = (getCustomerByAccountNumber a d \<noteq> None)"
  by (simp add: updateCustomerBalance_def getCustomerByAccountNumber_def split: option.splits)

lemma updateCustomerBalance_frame [simp]:
  "transactions (snd (updateCustomerBalance a k d)) = transactions d"
  "analytics (snd (updateCustomerBalance a k d)) = analytics d"
  "sessions (snd (updateCustomerBalance a k d)) = sessions d"
  by (simp_all add: updateCustomerBalance_def split: option.splits)

lemma updateCustomerBalance_customers:
  "customers (snd (updateCustomerBalance a k d)) =
     update_first (\<lambda>c. accountNumber c = a) (\<lambda>c. c\<lparr>balance := balance c + k\<rparr>) (customers d)"
  by (simp add: updateCustomerBalance_def update_first_none split: option.splits)

lemma updateCustomerBalance_lookup:
  "getCustomerByAccountNumber a (snd (updateCustomerBalance b k d)) =
     map_option (\<lambda>c. if a = b then c\<lparr>balance := balance c + k\<rparr> else c)
       (getCustomerByAccountNumber a d)"
  by (simp add: updateCustomerBalance_customers getCustomerByAccountNumber_def
      find_update_first_balance)

lemma updateCustomerBalance_balance:
  "getCustomerBalance a (snd (updateCustomerBalance b k d)) =
     map_option (\<lambda>x. if a = b then x + k else x) (getCustomerBalance a d)"
  by (simp add: getCustomerBalance_alt updateCustomerBalance_lookup option.map_comp comp_def
      if_distrib cong: if_cong)

lemma updateCustomerBalance_missing:
  "getCustomerByAccountNumber a d = None \<Longrightarrow> snd (updateCustomerBalance a k d) = d"
  by (simp add: updateCustomerBalance_def getCustomerByAccountNumber_def)

subsection \<open>updateTransactionStatus\<close>

lemma updateTransactionStatus_frame [simp]:
  "customers (snd (updateTransactionStatus i s d)) = customers d"
  "analytics (snd (updateTransactionStatus i s d)) = analytics d"
  "sessions (snd (updateTransactionStatus i s d)) = sessions d"
  by (simp_all add: updateTransactionStatus_def split: option.splits)

lemma updateTransactionStatus_transactions:
  "transactions (snd (updateTransactionStatus i s d)) =
     update_first (\<lambda>t. txn_id t = i) (\<lambda>t. t\<lparr>status := s\<rparr>) (transactions d)"
  by (simp add: updateTransactionStatus_def update_first_none split: option.splits)

lemma updateTransactionStatus_reads [simp]:
  "total_balance (snd (updateTransactionStatus i s d)) = total_balance d"
  "getCustomerByAccountNumber a (snd (updateTransactionStatus i s d)) = getCustomerByAccountNumber a d"
  "getCustomerBalance a (snd (updateTransactionStatus i s d)) = getCustomerBalance a d"
  by (simp_all add: total_balance_def getCustomerByAccountNumber_def getCustomerBalance_def)

section \<open>Transfers and the sum of the balances\<close>

subsection \<open>Rounding\<close>

lemma quantum_below: "n < 2 ^ 53 \<Longrightarrow> quantum n = 1"
  by (subst quantum.simps) simp

lemma quantum_step: "2 ^ 53 \<le> n \<Longrightarrow> quantum n = 2 * quantum (n div 2)"
  by (subst quantum.simps) simp

lemma quantum_at: "quantum 9007199254740992 = 2"
  by (simp add: quantum_step quantum_below)

text \<open>Up to \<open>2^53\<close> in magnitude nothing is rounded.\<close>

lemma double_round_exact: "\<bar>x\<bar> \<le> 2 ^ 53 \<Longrightarrow> double_round x = x"
proof (cases "nat \<bar>x\<bar> < 2 ^ 53")
  case True
  then show ?thesis
    by (simp add: double_round_def Let_def quantum_below sgn_if)
next
  case False
  assume "\<bar>x\<bar> \<le> 2 ^ 53"
  with False have n: "nat \<bar>x\<bar> = 2 ^ 53" by simp
  from n have "x = 2 ^ 53 \<or> x = - (2 ^ 53)" by (auto simp: nat_eq_iff)
  with n show ?thesis
    by (auto simp add: double_round_def Let_def quantum_at)
qed

lemma double_add_exact: "\<bar>x + y\<bar> \<le> 2 ^ 53 \<Longrightarrow> double_add x y = x + y"
  by (simp add: double_add_def double_round_exact)

lemmas double_eval = double_add_def double_round_def Let_def quantum_step quantum_below

subsection \<open>The operations in the source's arithmetic\<close>

lemma find_update_first_account:
  "(\<And>c. accountNumber (f c) = accountNumber c) \<Longrightarrow>
   find (\<lambda>c. accountNumber c = a) (update_first (\<lambda>c. accountNumber c = b) f xs)
   = map_option (\<lambda>c. if a = b then f c else c) (find (\<lambda>c. accountNumber c = a) xs)"
  by (induction xs) (auto simp: option.map_ident)

lemma sum_balance_update_first_any:
  "sum_list (map balance (update_first p f xs))
     = sum_list (map balance xs) +
       (case find p xs of None \<Rightarrow> 0 | Some c \<Rightarrow> balance (f c) - balance c)"
  by (induction xs) auto

lemma createTransaction_f64_fst:
  "fst (createTransaction_f64 u n f d) = fst (createTransaction u n f d)"
  by (simp add: createTransaction_f64_def createTransaction_def Let_def)

lemma createTransaction_f64_transactions:
  "transactions (snd (createTransaction_f64 u n f d)) =
     transactions d @ [fst (createTransaction u n f d)]"
  by (simp add: createTransaction_f64_def createTransaction_def Let_def)

lemma createTransaction_f64_reads [simp]:
  "customers (snd (createTransaction_f64 u n f d)) = customers d"
  "total_balance (snd (createTransaction_f64 u n f d)) = total_balance d"
  "getCustomerByAccountNumber a (snd (createTransaction_f64 u n f d)) =
     getCustomerByAccountNumber a d"
  "getCustomerBalance a (snd (createTransaction_f64 u n f d)) = getCustomerBalance a d"
  by (simp_all add: createTransaction_f64_def Let_def total_balance_def
      getCustomerByAccountNumber_def getCustomerBalance_def)

lemma updateCustomerBalance_f64_fst:
  "fst (updateCustomerBalance_f64 a k d) = (getCustomerBalance a d \<noteq> None)"
  by (simp add: updateCustomerBalance_f64_def getCustomerBalance_def split: option.splits)

lemma updateCustomerBalance_f64_frame [simp]:
  "transactions (snd (updateCustomerBalance_f64 a k d)) = transactions d"
  by (simp add: updateCustomerBalance_f64_def split: option.splits)

lemma updateCustomerBalance_f64_customers:
  "customers (snd (updateCustomerBalance_f64 a k d)) =
     update_first (\<lambda>c. accountNumber c = a)
       (\<lambda>c. c\<lparr>balance := double_add (balance c) k\<rparr>) (customers d)"
  by (simp add: updateCustomerBalance_f64_def update_first_none split: option.splits)

lemma updateCustomerBalance_f64_balance:
  "getCustomerBalance a (snd (updateCustomerBalance_f64 b k d)) =
     map_option (\<lambda>x. if a = b then double_add x k else x) (getCustomerBalance a d)"
  by (simp add: getCustomerBalance_alt getCustomerByAccountNumber_def
      updateCustomerBalance_f64_customers find_update_first_account option.map_comp comp_def
      if_distrib cong: if_cong)

lemma updateCustomerBalance_f64_total:
  "total_balance (snd (updateCustomerBalance_f64 a k d)) =
     total_balance d +
       (case getCustomerBalance a d of None \<Rightarrow> 0 | Some b \<Rightarrow> double_add b k - b)"
  by (simp add: total_balance_def updateCustomerBalance_f64_customers
      sum_balance_update_first_any getCustomerBalance_def split: option.splits)

lemma transfer_f64_conserves:
  assumes ok: "success (fst (processTransfer_f64 uuid now A B amt d))"
    and distinct: "A \<noteq> B"
    and a: "getCustomerBalance A d = Some a" and b: "getCustomerBalance B d = Some b"
    and debit: "\<bar>a - amt\<bar> \<le> 2 ^ 53" and credit: "\<bar>b + amt\<bar> \<le> 2 ^ 53"
  shows "total_balance (snd (processTransfer_f64 uuid now A B amt d)) = total_balance d"
proof -
  let ?d1 = "snd (createTransaction_f64 uuid now
      \<lparr> f_accountNumber = A, f_destinationAccount = Some B, f_type = Transfer,
        f_amount = amt, f_status = None, f_reason = None \<rparr> d)"
  let ?d2 = "snd (updateCustomerBalance_f64 A (- amt) ?d1)"
  let ?d3 = "snd (updateCustomerBalance_f64 B amt ?d2)"
  from debit have da: "double_add a (- amt) = a - amt"
    using double_add_exact [of a "- amt"] by simp
  from credit have db: "double_add b amt = b + amt"
    by (rule double_add_exact)
  have "total_balance ?d2 = total_balance d + (double_add a (- amt) - a)"
    using a by (simp add: updateCustomerBalance_f64_total)
  moreover have "getCustomerBalance B ?d2 = Some b"
    using b distinct by (simp add: updateCustomerBalance_f64_balance)
  then have "total_balance ?d3 = total_balance ?d2 + (double_add b amt - b)"
    by (simp add: updateCustomerBalance_f64_total)
  moreover have "customers (snd (processTransfer_f64 uuid now A B amt d)) = customers ?d3"
    using ok by (simp add: processTransfer_f64_def Let_def case_prod_beta split: if_splits)
  then have "total_balance (snd (processTransfer_f64 uuid now A B amt d)) = total_balance ?d3"
    by (simp add: total_balance_def)
  ultimately show ?thesis
    using da db by simp
qed

lemma transfer_f64_scenario:
  assumes "getCustomerBalance A d = Some 5000" and "getCustomerBalance B d = Some 7500"
    and "fresh uuid d"
  shows "success (fst (processTransfer_f64 uuid now A B 750 d)) \<and>
        getCustomerBalance A (snd (processTransfer_f64 uuid now A B 750 d)) = Some 4250 \<and>
        getCustomerBalance B (snd (processTransfer_f64 uuid now A B 750 d)) = Some 8250 \<and>
        transactions (snd (processTransfer_f64 uuid now A B 750 d)) =
          transactions d @ [transaction (fst (processTransfer_f64 uuid now A B 750 d))] \<and>
        transaction (fst (processTransfer_f64 uuid now A B 750 d)) =
          \<lparr> txn_id = uuid, timestamp = now, status = Completed, txn_accountNumber = A,
            destinationAccount = Some B, txn_type = Transfer, amount = 750, reason = None \<rparr>"
proof -
  from assms(1,2) have "A \<noteq> B" by auto
  moreover have "double_add 5000 (- 750) = 4250" "double_add 7500 750 = 8250"
    by (simp_all add: double_add_exact)
  moreover have "getCustomerByAccountNumber B d \<noteq> None"
    using assms(2) by (auto simp: getCustomerBalance_alt)
  ultimately show ?thesis
    using assms
    by (simp add: processTransfer_f64_def Let_def case_prod_beta
        updateCustomerBalance_f64_fst updateCustomerBalance_f64_balance
        createTransaction_f64_transactions createTransaction_f64_fst createTransaction_fst
        updateTransactionStatus_transactions update_txn_fresh fresh_def)
qed

text \<open>
  Claim C1, as the code has it. The balances are JavaScript numbers, so a transfer
  conserves the sum of the balances where its two additions are exact: for distinct
  accounts \<open>A\<close> and \<open>B\<close> holding \<open>a\<close> and \<open>b\<close>, a transfer that returns success
  leaves the sum of all account balances as it was when the balance \<open>A\<close> is left
  with, \<open>a - amt\<close>, and the balance \<open>B\<close> is left with, \<open>b + amt\<close>, are at most
  \<open>2^53\<close> in magnitude. In a state where \<open>A\<close> holds 5000 and \<open>B\<close> holds 7500, a
  transfer of 750 from \<open>A\<close> to \<open>B\<close> (under a fresh identifier) succeeds, leaves
  4250 and 8250, and appends one record to the log: a transfer from \<open>A\<close> to \<open>B\<close>
  of 750 with status completed, which is also the record returned.
\<close>

theorem processTransfer_conserves_exact_range:
  "(success (fst (processTransfer_f64 uuid now A B amt d)) \<and> A \<noteq> B \<and>
    getCustomerBalance A d = Some a \<and> getCustomerBalance B d = Some b \<and>
    \<bar>a - amt\<bar> \<le> 2 ^ 53 \<and> \<bar>b + amt\<bar> \<le> 2 ^ 53 \<longrightarrow>
      total_balance (snd (processTransfer_f64 uuid now A B amt d)) = total_balance d) \<and>
   (getCustomerBalance A d = Some 5000 \<and> getCustomerBalance B d = Some 7500 \<and> fresh uuid d \<longrightarrow>
      success (fst (processTransfer_f64 uuid now A B 750 d)) \<and>
      getCustomerBalance A (snd (processTransfer_f64 uuid now A B 750 d)) = Some 4250 \<and>
      getCustomerBalance B (snd (processTransfer_f64 uuid now A B 750 d)) = Some 8250 \<and>
      transactions (snd (processTransfer_f64 uuid now A B 750 d)) =
        transactions d @ [transaction (fst (processTransfer_f64 uuid now A B 750 d))] \<and>
      transaction (fst (processTransfer_f64 uuid now A B 750 d)) =
        \<lparr> txn_id = uuid, timestamp = now, status = Completed, txn_accountNumber = A,
          destinationAccount = Some B, txn_type = Transfer, amount = 750, reason = None \<rparr>)"
  using transfer_f64_conserves [of uuid now A B amt d a b]
    transfer_f64_scenario [of A d B uuid now]
  by blast

theorem processTransfer_conserves_exact_range_witness:
  "success (fst (processTransfer_f64 ''u4'' 1 ''10001'' ''10002'' 750 (seed_db 0))) \<and>
   ''10001'' \<noteq> ''10002'' \<and>
   getCustomerBalance ''10001'' (seed_db 0) = Some 5000 \<and>
   getCustomerBalance ''10002'' (seed_db 0) = Some 7500 \<and>
   \<bar>5000 - 750 :: int\<bar> \<le> 2 ^ 53 \<and> \<bar>7500 + 750 :: int\<bar> \<le> 2 ^ 53 \<and>
   fresh ''u4'' (seed_db 0) \<and>
   total_balance (seed_db 0) = 24500 \<and>
   total_balance (snd (processTransfer_f64 ''u4'' 1 ''10001'' ''10002'' 750 (seed_db 0))) = 24500 \<and>
   getCustomerBalance ''10001''
     (snd (processTransfer_f64 ''u4'' 1 ''10001'' ''10002'' 750 (seed_db 0))) = Some 4250 \<and>
   getCustomerBalance ''10002''
     (snd (processTransfer_f64 ''u4'' 1 ''10001'' ''10002'' 750 (seed_db 0))) = Some 8250 \<and>
   length (transactions
     (snd (processTransfer_f64 ''u4'' 1 ''10001'' ''10002'' 750 (seed_db 0)))) = 4 \<and>
   status (transaction (fst (processTransfer_f64 ''u4'' 1 ''10001'' ''10002'' 750 (seed_db 0))))
     = Completed"
proof -
  have pre: "getCustomerBalance ''10001'' (seed_db 0) = Some 5000 \<and>
      getCustomerBalance ''10002'' (seed_db 0) = Some 7500 \<and> fresh ''u4'' (seed_db 0)"
    by (simp add: getCustomerBalance_def fresh_def seed_db_def)
  have tot: "total_balance (seed_db 0) = 24500"
    by (simp add: total_balance_def seed_db_def)
  have len: "length (transactions (seed_db 0)) = 3"
    by (simp add: seed_db_def)
  from processTransfer_conserves_exact_range
    [of "''u4''" 1 "''10001''" "''10002''" 750 "seed_db 0" 5000 7500] pre tot len
  show ?thesis by simp
qed

lemma large_balance_customers:
  "customers large_balance_state =
     [ \<lparr> customer_id = ''1'', name = ''John Doe'', email = ''john@example.com'',
           accountNumber = ''10001'', balance = 9007199254745992 \<rparr>,
         \<lparr> customer_id = ''2'', name = ''Jane Smith'', email = ''jane@example.com'',
           accountNumber = ''10002'', balance = 7501 \<rparr>,
         \<lparr> customer_id = ''3'', name = ''Robert Johnson'', email = ''robert@example.com'',
           accountNumber = ''10003'', balance = 12000 \<rparr> ]"
  by (simp add: large_balance_state_def processTransfer_f64_def processDeposit_f64_def
      createTransaction_f64_def updateCustomerBalance_f64_def updateTransactionStatus_def
      getCustomerBalance_def getCustomerByAccountNumber_def seed_db_def double_eval)

lemma large_transfer_customers:
  "success (fst (processTransfer_f64 ''u6'' 3 ''10001'' ''10002'' 9007199254740992
     large_balance_state)) \<and>
   customers (snd (processTransfer_f64 ''u6'' 3 ''10001'' ''10002'' 9007199254740992
     large_balance_state)) =
     [ \<lparr> customer_id = ''1'', name = ''John Doe'', email = ''john@example.com'',
           accountNumber = ''10001'', balance = 5000 \<rparr>,
         \<lparr> customer_id = ''2'', name = ''Jane Smith'', email = ''jane@example.com'',
           accountNumber = ''10002'', balance = 9007199254748492 \<rparr>,
         \<lparr> customer_id = ''3'', name = ''Robert Johnson'', email = ''robert@example.com'',
           accountNumber = ''10003'', balance = 12000 \<rparr> ]"
  by (simp add: large_balance_state_def processTransfer_f64_def processDeposit_f64_def
      createTransaction_f64_def updateCustomerBalance_f64_def updateTransactionStatus_def
      getCustomerBalance_def getCustomerByAccountNumber_def seed_db_def double_eval)

lemma unit_transfer_customers:
  "success (fst (processTransfer_f64 ''u6'' 3 ''10001'' ''10002'' 1 large_balance_state)) \<and>
   customers (snd (processTransfer_f64 ''u6'' 3 ''10001'' ''10002'' 1 large_balance_state)) =
     [ \<lparr> customer_id = ''1'', name = ''John Doe'', email = ''john@example.com'',
           accountNumber = ''10001'', balance = 9007199254745992 \<rparr>,
         \<lparr> customer_id = ''2'', name = ''Jane Smith'', email = ''jane@example.com'',
           accountNumber = ''10002'', balance = 7502 \<rparr>,
         \<lparr> customer_id = ''3'', name = ''Robert Johnson'', email = ''robert@example.com'',
           accountNumber = ''10003'', balance = 12000 \<rparr> ]"
  by (simp add: large_balance_state_def processTransfer_f64_def processDeposit_f64_def
      createTransaction_f64_def updateCustomerBalance_f64_def updateTransactionStatus_def
      getCustomerBalance_def getCustomerByAccountNumber_def seed_db_def double_eval)

text \<open>
  The claim as stated fails beyond that range. In the state reached from the seed by
  a deposit of 1 to account 10002 and a deposit of \<open>2^53\<close> to account 10001, the
  accounts hold 9007199254745992, 7501 and 12000. A transfer of \<open>2^53\<close> from 10001 to
  10002 succeeds and leaves 5000 and 9007199254748492: the credit is rounded down and
  the sum of the balances is one lower. A transfer of 1 from 10001 to 10002 succeeds
  and leaves 9007199254745992 and 7502: the debit is rounded away, the sum of the
  balances is one higher, and so is the sum as the source's own addition gives it.
\<close>

theorem large_transfer_changes_the_sum:
  "getCustomerBalance ''10001'' large_balance_state = Some 9007199254745992 \<and>
   getCustomerBalance ''10002'' large_balance_state = Some 7501 \<and>
   total_balance large_balance_state = 9007199254765493 \<and>
   double_total large_balance_state = 9007199254765492 \<and>
   success (fst (processTransfer_f64 ''u6'' 3 ''10001'' ''10002'' 9007199254740992
     large_balance_state)) \<and>
   getCustomerBalance ''10001'' (snd (processTransfer_f64 ''u6'' 3 ''10001'' ''10002''
     9007199254740992 large_balance_state)) = Some 5000 \<and>
   getCustomerBalance ''10002'' (snd (processTransfer_f64 ''u6'' 3 ''10001'' ''10002''
     9007199254740992 large_balance_state)) = Some 9007199254748492 \<and>
   total_balance (snd (processTransfer_f64 ''u6'' 3 ''10001'' ''10002''
     9007199254740992 large_balance_state)) = 9007199254765492 \<and>
   success (fst (processTransfer_f64 ''u6'' 3 ''10001'' ''10002'' 1 large_balance_state)) \<and>
   getCustomerBalance ''10001'' (snd (processTransfer_f64 ''u6'' 3 ''10001'' ''10002'' 1
     large_balance_state)) = Some 9007199254745992 \<and>
   getCustomerBalance ''10002'' (snd (processTransfer_f64 ''u6'' 3 ''10001'' ''10002'' 1
     large_balance_state)) = Some 7502 \<and>
   total_balance (snd (processTransfer_f64 ''u6'' 3 ''10001'' ''10002'' 1
     large_balance_state)) = 9007199254765494 \<and>
   double_total (snd (processTransfer_f64 ''u6'' 3 ''10001'' ''10002'' 1
     large_balance_state)) = 9007199254765494"
  by (simp add: large_balance_customers large_transfer_customers unit_transfer_customers
      getCustomerBalance_def total_balance_def double_total_def double_eval)

section \<open>Analytics totals\<close>


lemma sum_amount_status_update:
  "sum_list (map amount (filter (\<lambda>t. txn_type t = ty) (update_first p (\<lambda>t. t\<lparr>status := s\<rparr>) ts)))
     = sum_list (map amount (filter (\<lambda>t. txn_type t = ty) ts))"
  by (induction ts) auto

lemma logged_total_updateTransactionStatus [simp]:
  "logged_total ty (snd (updateTransactionStatus i s d)) = logged_total ty d"
  by (simp add: logged_total_def updateTransactionStatus_transactions sum_amount_status_update)

lemma logged_total_updateCustomerBalance [simp]:
  "logged_total ty (snd (updateCustomerBalance a k d)) = logged_total ty d"
  by (simp add: logged_total_def)












lemmas eval_defs = processDeposit_def processWithdrawal_def processTransfer_def
  createTransaction_def updateCustomerBalance_def updateTransactionStatus_def
  getCustomerBalance_def getCustomerByAccountNumber_def trackSession_def
  getTransactionSummary_def seed_db_def run_def Let_def



section \<open>Settlement of one call\<close>

lemmas settle_simps = Let_def case_prod_beta updateCustomerBalance_fst
  createTransaction_transactions createTransaction_fst
  updateTransactionStatus_transactions update_txn_fresh fresh_def

text \<open>The guard holds exactly when the account is missing or holds less than the amount.\<close>

lemma insufficient_iff:
  "insufficient acc amt d \<longleftrightarrow>
     getCustomerBalance acc d = None \<or> (\<exists>b. getCustomerBalance acc d = Some b \<and> b < amt)"
  by (simp add: insufficient_def split: option.splits)

lemma deposit_audit:
  "fresh uuid d \<Longrightarrow>
   transactions (snd (processDeposit uuid now acc amt d)) =
     transactions d @ [transaction (fst (processDeposit uuid now acc amt d))] \<and>
   status (transaction (fst (processDeposit uuid now acc amt d))) \<in> {Completed, Failed}"
  by (simp add: processDeposit_def settle_simps)

lemma withdrawal_audit:
  "fresh uuid d \<Longrightarrow>
   transactions (snd (processWithdrawal uuid now acc amt d)) =
     transactions d @ [transaction (fst (processWithdrawal uuid now acc amt d))] \<and>
   status (transaction (fst (processWithdrawal uuid now acc amt d))) \<in> {Completed, Failed}"
  by (simp add: processWithdrawal_def settle_simps)

lemma transfer_audit:
  "fresh uuid d \<Longrightarrow>
   transactions (snd (processTransfer uuid now src dst amt d)) =
     transactions d @ [transaction (fst (processTransfer uuid now src dst amt d))] \<and>
   status (transaction (fst (processTransfer uuid now src dst amt d))) \<in> {Completed, Failed}"
  by (simp add: processTransfer_def settle_simps)

text \<open>
  Claim C5. A call of \<^verbatim>\<open>processDeposit\<close>, \<^verbatim>\<open>processWithdrawal\<close> or
  \<^verbatim>\<open>processTransfer\<close> with a positive amount, under an identifier that no log entry
  carries yet, leaves the log as it was with exactly one record appended; that record
  is the one returned, and its status on return is completed or failed, so it is not
  pending.
\<close>

theorem every_call_logs_one_settled_record:
  "0 < amt \<and> fresh uuid d \<longrightarrow>
   (transactions (snd (processDeposit uuid now acc amt d)) =
      transactions d @ [transaction (fst (processDeposit uuid now acc amt d))] \<and>
    status (transaction (fst (processDeposit uuid now acc amt d))) \<in> {Completed, Failed}) \<and>
   (transactions (snd (processWithdrawal uuid now acc amt d)) =
      transactions d @ [transaction (fst (processWithdrawal uuid now acc amt d))] \<and>
    status (transaction (fst (processWithdrawal uuid now acc amt d))) \<in> {Completed, Failed}) \<and>
   (transactions (snd (processTransfer uuid now acc dst amt d)) =
      transactions d @ [transaction (fst (processTransfer uuid now acc dst amt d))] \<and>
    status (transaction (fst (processTransfer uuid now acc dst amt d))) \<in> {Completed, Failed})"
  using deposit_audit withdrawal_audit transfer_audit by blast

theorem every_call_logs_one_settled_record_witness:
  "(0::int) < 100 \<and> fresh ''u4'' (seed_db 0) \<and>
   transactions (snd (processDeposit ''u4'' 1 ''10001'' 100 (seed_db 0))) =
     transactions (seed_db 0) @ [transaction (fst (processDeposit ''u4'' 1 ''10001'' 100 (seed_db 0)))] \<and>
   status (transaction (fst (processDeposit ''u4'' 1 ''10001'' 100 (seed_db 0))))
     \<in> {Completed, Failed} \<and>
   transactions (snd (processWithdrawal ''u4'' 1 ''10001'' 100 (seed_db 0))) =
     transactions (seed_db 0) @
       [transaction (fst (processWithdrawal ''u4'' 1 ''10001'' 100 (seed_db 0)))] \<and>
   status (transaction (fst (processWithdrawal ''u4'' 1 ''10001'' 100 (seed_db 0))))
     \<in> {Completed, Failed} \<and>
   transactions (snd (processTransfer ''u4'' 1 ''10001'' ''10002'' 100 (seed_db 0))) =
     transactions (seed_db 0) @
       [transaction (fst (processTransfer ''u4'' 1 ''10001'' ''10002'' 100 (seed_db 0)))] \<and>
   status (transaction (fst (processTransfer ''u4'' 1 ''10001'' ''10002'' 100 (seed_db 0))))
     \<in> {Completed, Failed}"
proof -
  have pre: "(0::int) < 100 \<and> fresh ''u4'' (seed_db 0)"
    by (simp add: fresh_def seed_db_def)
  from every_call_logs_one_settled_record
    [where amt = 100 and uuid = "''u4''" and d = "seed_db 0" and now = 1
       and acc = "''10001''" and dst = "''10002''"] pre
  show ?thesis by blast
qed

text \<open>The path a withdrawal takes when the guard holds: one record, created failed.\<close>

lemma withdrawal_rejected:
  assumes "insufficient acc amt d"
  shows "processWithdrawal uuid now acc amt d =
    (\<lparr> success = False,
       transaction = fst (createTransaction uuid now
         \<lparr> f_accountNumber = acc, f_destinationAccount = None, f_type = Withdrawal,
           f_amount = amt, f_status = Some Failed, f_reason = Some ''Insufficient funds'' \<rparr> d),
       result_reason = Some ''Insufficient funds'' \<rparr>,
     snd (createTransaction uuid now
         \<lparr> f_accountNumber = acc, f_destinationAccount = None, f_type = Withdrawal,
           f_amount = amt, f_status = Some Failed, f_reason = Some ''Insufficient funds'' \<rparr> d))"
  using assms
  by (simp add: processWithdrawal_def insufficient_def case_prod_beta
      createTransaction_transactions)

text \<open>
  Claim C6, with the reason as the code writes it. When the account is missing or its
  balance is below the amount, \<^verbatim>\<open>processWithdrawal\<close> returns failure with the reason
  \<^verbatim>\<open>'Insufficient funds'\<close>, appends exactly one record, a withdrawal created with
  status failed and the same reason, and leaves the accounts table as it was. This
  holds for every amount, positive or not, and whatever the identifier.
\<close>

theorem withdrawal_insufficient_funds:
  "insufficient acc amt d \<longrightarrow>
     \<not> success (fst (processWithdrawal uuid now acc amt d)) \<and>
     result_reason (fst (processWithdrawal uuid now acc amt d)) = Some ''Insufficient funds'' \<and>
     transactions (snd (processWithdrawal uuid now acc amt d)) =
       transactions d @ [transaction (fst (processWithdrawal uuid now acc amt d))] \<and>
     transaction (fst (processWithdrawal uuid now acc amt d)) =
       \<lparr> txn_id = uuid, timestamp = now, status = Failed, txn_accountNumber = acc,
         destinationAccount = None, txn_type = Withdrawal, amount = amt,
         reason = Some ''Insufficient funds'' \<rparr> \<and>
     customers (snd (processWithdrawal uuid now acc amt d)) = customers d"
proof
  assume "insufficient acc amt d"
  then show "\<not> success (fst (processWithdrawal uuid now acc amt d)) \<and>
     result_reason (fst (processWithdrawal uuid now acc amt d)) = Some ''Insufficient funds'' \<and>
     transactions (snd (processWithdrawal uuid now acc amt d)) =
       transactions d @ [transaction (fst (processWithdrawal uuid now acc amt d))] \<and>
     transaction (fst (processWithdrawal uuid now acc amt d)) =
       \<lparr> txn_id = uuid, timestamp = now, status = Failed, txn_accountNumber = acc,
         destinationAccount = None, txn_type = Withdrawal, amount = amt,
         reason = Some ''Insufficient funds'' \<rparr> \<and>
     customers (snd (processWithdrawal uuid now acc amt d)) = customers d"
    by (simp add: withdrawal_rejected createTransaction_transactions createTransaction_fst)
qed

theorem withdrawal_insufficient_funds_witness:
  "insufficient ''10001'' 6000 (seed_db 0) \<and>
   insufficient ''99999'' 1 (seed_db 0) \<and>
   \<not> success (fst (processWithdrawal ''u4'' 1 ''10001'' 6000 (seed_db 0))) \<and>
   customers (snd (processWithdrawal ''u4'' 1 ''10001'' 6000 (seed_db 0))) = customers (seed_db 0) \<and>
   status (transaction (fst (processWithdrawal ''u4'' 1 ''10001'' 6000 (seed_db 0)))) = Failed \<and>
   \<not> success (fst (processWithdrawal ''u4'' 1 ''99999'' 1 (seed_db 0))) \<and>
   customers (snd (processWithdrawal ''u4'' 1 ''99999'' 1 (seed_db 0))) = customers (seed_db 0)"
proof -
  have pre: "insufficient ''10001'' 6000 (seed_db 0) \<and> insufficient ''99999'' 1 (seed_db 0)"
    by (simp add: insufficient_def getCustomerBalance_def seed_db_def)
  from withdrawal_insufficient_funds [of "''10001''" 6000 "seed_db 0" "''u4''" 1]
    withdrawal_insufficient_funds [of "''99999''" 1 "seed_db 0" "''u4''" 1] pre
  show ?thesis by simp
qed

text \<open>
  The reason string of the claim is not the one returned: the code's literal starts
  with a capital letter.
\<close>

theorem withdrawal_reason_is_capitalised:
  "insufficient ''10001'' 6000 (seed_db 0) \<and>
   result_reason (fst (processWithdrawal ''u4'' 1 ''10001'' 6000 (seed_db 0))) =
     Some ''Insufficient funds'' \<and>
   reason (transaction (fst (processWithdrawal ''u4'' 1 ''10001'' 6000 (seed_db 0)))) =
     Some ''Insufficient funds'' \<and>
   ''Insufficient funds'' \<noteq> ''insufficient funds''"
  by (simp add: insufficient_def eval_defs)

text \<open>The two paths on which a transfer is refused before any balance is touched.\<close>

lemma transfer_rejected_source:
  assumes "insufficient src amt d"
  shows "processTransfer uuid now src dst amt d =
    (\<lparr> success = False,
       transaction = fst (createTransaction uuid now
         \<lparr> f_accountNumber = src, f_destinationAccount = Some dst, f_type = Transfer,
           f_amount = amt, f_status = Some Failed, f_reason = Some ''Insufficient funds'' \<rparr> d),
       result_reason = Some ''Insufficient funds'' \<rparr>,
     snd (createTransaction uuid now
         \<lparr> f_accountNumber = src, f_destinationAccount = Some dst, f_type = Transfer,
           f_amount = amt, f_status = Some Failed, f_reason = Some ''Insufficient funds'' \<rparr> d))"
  using assms
  by (simp add: processTransfer_def insufficient_def case_prod_beta
      createTransaction_transactions)

lemma transfer_rejected_destination:
  assumes "\<not> insufficient src amt d" and "getCustomerByAccountNumber dst d = None"
  shows "processTransfer uuid now src dst amt d =
    (\<lparr> success = False,
       transaction = fst (createTransaction uuid now
         \<lparr> f_accountNumber = src, f_destinationAccount = Some dst, f_type = Transfer,
           f_amount = amt, f_status = Some Failed,
           f_reason = Some ''Destination account not found'' \<rparr> d),
       result_reason = Some ''Destination account not found'' \<rparr>,
     snd (createTransaction uuid now
         \<lparr> f_accountNumber = src, f_destinationAccount = Some dst, f_type = Transfer,
           f_amount = amt, f_status = Some Failed,
           f_reason = Some ''Destination account not found'' \<rparr> d))"
  using assms
  by (simp add: processTransfer_def insufficient_def case_prod_beta
      createTransaction_transactions)

text \<open>
  Claim C7, with the reasons as the code writes them. \<^verbatim>\<open>processTransfer\<close> checks the
  source first: when the source is missing or its balance is below the amount, the
  call fails with \<^verbatim>\<open>'Insufficient funds'\<close> whether or not the destination exists.
  Only then it checks the destination: with a sufficient source and a destination
  that does not exist, the call fails with \<^verbatim>\<open>'Destination account not found'\<close>. On
  both paths exactly one record is appended, a transfer created with status failed
  and the reason returned, and the accounts table is left as it was.
\<close>

theorem transfer_validation_order:
  "(insufficient src amt d \<longrightarrow>
     \<not> success (fst (processTransfer uuid now src dst amt d)) \<and>
     result_reason (fst (processTransfer uuid now src dst amt d)) = Some ''Insufficient funds'' \<and>
     transactions (snd (processTransfer uuid now src dst amt d)) =
       transactions d @ [transaction (fst (processTransfer uuid now src dst amt d))] \<and>
     transaction (fst (processTransfer uuid now src dst amt d)) =
       \<lparr> txn_id = uuid, timestamp = now, status = Failed, txn_accountNumber = src,
         destinationAccount = Some dst, txn_type = Transfer, amount = amt,
         reason = Some ''Insufficient funds'' \<rparr> \<and>
     customers (snd (processTransfer uuid now src dst amt d)) = customers d) \<and>
   (\<not> insufficient src amt d \<and> getCustomerByAccountNumber dst d = None \<longrightarrow>
     \<not> success (fst (processTransfer uuid now src dst amt d)) \<and>
     result_reason (fst (processTransfer uuid now src dst amt d)) =
       Some ''Destination account not found'' \<and>
     transactions (snd (processTransfer uuid now src dst amt d)) =
       transactions d @ [transaction (fst (processTransfer uuid now src dst amt d))] \<and>
     transaction (fst (processTransfer uuid now src dst amt d)) =
       \<lparr> txn_id = uuid, timestamp = now, status = Failed, txn_accountNumber = src,
         destinationAccount = Some dst, txn_type = Transfer, amount = amt,
         reason = Some ''Destination account not found'' \<rparr> \<and>
     customers (snd (processTransfer uuid now src dst amt d)) = customers d)"
proof (cases "insufficient src amt d")
  case True
  then show ?thesis
    by (simp add: transfer_rejected_source createTransaction_transactions createTransaction_fst)
next
  case False
  show ?thesis
  proof (cases "getCustomerByAccountNumber dst d")
    case None
    with False show ?thesis
      by (simp add: transfer_rejected_destination createTransaction_transactions
          createTransaction_fst)
  next
    case (Some c)
    with False show ?thesis by simp
  qed
qed

theorem transfer_validation_order_witness:
  "insufficient ''10001'' 6000 (seed_db 0) \<and>
   \<not> insufficient ''10001'' 100 (seed_db 0) \<and>
   getCustomerByAccountNumber ''99999'' (seed_db 0) = None \<and>
   result_reason (fst (processTransfer ''u4'' 1 ''10001'' ''99999'' 6000 (seed_db 0))) =
     Some ''Insufficient funds'' \<and>
   customers (snd (processTransfer ''u4'' 1 ''10001'' ''99999'' 6000 (seed_db 0))) =
     customers (seed_db 0) \<and>
   \<not> success (fst (processTransfer ''u4'' 1 ''10001'' ''99999'' 100 (seed_db 0))) \<and>
   result_reason (fst (processTransfer ''u4'' 1 ''10001'' ''99999'' 100 (seed_db 0))) =
     Some ''Destination account not found'' \<and>
   status (transaction (fst (processTransfer ''u4'' 1 ''10001'' ''99999'' 100 (seed_db 0)))) =
     Failed \<and>
   customers (snd (processTransfer ''u4'' 1 ''10001'' ''99999'' 100 (seed_db 0))) =
     customers (seed_db 0)"
proof -
  have pre: "insufficient ''10001'' 6000 (seed_db 0) \<and> \<not> insufficient ''10001'' 100 (seed_db 0) \<and>
      getCustomerByAccountNumber ''99999'' (seed_db 0) = None"
    by (simp add: insufficient_def getCustomerBalance_def getCustomerByAccountNumber_def
        seed_db_def)
  from transfer_validation_order [of "''10001''" 6000 "seed_db 0" "''u4''" 1 "''99999''"]
    transfer_validation_order [of "''10001''" 100 "seed_db 0" "''u4''" 1 "''99999''"] pre
  show ?thesis by simp
qed

text \<open>
  The reason strings of the claim are not the ones returned: both literals of the
  code start with a capital letter.
\<close>

theorem transfer_reasons_are_capitalised:
  "result_reason (fst (processTransfer ''u4'' 1 ''10001'' ''99999'' 6000 (seed_db 0))) =
     Some ''Insufficient funds'' \<and>
   ''Insufficient funds'' \<noteq> ''insufficient funds'' \<and>
   result_reason (fst (processTransfer ''u4'' 1 ''10001'' ''99999'' 100 (seed_db 0))) =
     Some ''Destination account not found'' \<and>
   ''Destination account not found'' \<noteq> ''destination account not found''"
  by (simp add: eval_defs)

text \<open>The path a deposit takes when the account does not exist.\<close>

lemma deposit_rejected:
  assumes "getCustomerByAccountNumber acc d = None" and "fresh uuid d"
  shows "transactions (snd (processDeposit uuid now acc amt d)) =
      transactions d @
        [(fst (createTransaction uuid now
           \<lparr> f_accountNumber = acc, f_destinationAccount = None, f_type = Deposit,
             f_amount = amt, f_status = None, f_reason = None \<rparr> d))\<lparr>status := Failed\<rparr>]"
    and "customers (snd (processDeposit uuid now acc amt d)) = customers d"
    and "\<not> success (fst (processDeposit uuid now acc amt d))"
    and "result_reason (fst (processDeposit uuid now acc amt d)) = None"
  using assms
  by (simp_all add: processDeposit_def settle_simps updateCustomerBalance_missing)

text \<open>
  Claim C8, as the code has it. For an account number with no matching account and a
  fresh identifier, \<^verbatim>\<open>processDeposit\<close> creates a pending record, the balance update
  returns false, the record is set to failed and failure is returned. The status
  update takes an identifier and a status only: no reason is written to the record,
  and none is returned. The accounts table is left as it was. This holds for every
  amount, positive or not.
\<close>

theorem deposit_to_missing_account:
  "getCustomerByAccountNumber acc d = None \<and> fresh uuid d \<longrightarrow>
     status (fst (createTransaction uuid now
       \<lparr> f_accountNumber = acc, f_destinationAccount = None, f_type = Deposit,
         f_amount = amt, f_status = None, f_reason = None \<rparr> d)) = Pending \<and>
     \<not> fst (updateCustomerBalance acc amt (snd (createTransaction uuid now
       \<lparr> f_accountNumber = acc, f_destinationAccount = None, f_type = Deposit,
         f_amount = amt, f_status = None, f_reason = None \<rparr> d))) \<and>
     \<not> success (fst (processDeposit uuid now acc amt d)) \<and>
     result_reason (fst (processDeposit uuid now acc amt d)) = None \<and>
     transactions (snd (processDeposit uuid now acc amt d)) =
       transactions d @ [transaction (fst (processDeposit uuid now acc amt d))] \<and>
     transaction (fst (processDeposit uuid now acc amt d)) =
       \<lparr> txn_id = uuid, timestamp = now, status = Failed, txn_accountNumber = acc,
         destinationAccount = None, txn_type = Deposit, amount = amt, reason = None \<rparr> \<and>
     customers (snd (processDeposit uuid now acc amt d)) = customers d"
proof (intro impI, elim conjE)
  assume missing: "getCustomerByAccountNumber acc d = None" and fr: "fresh uuid d"
  let ?f = "\<lparr> f_accountNumber = acc, f_destinationAccount = None, f_type = Deposit,
         f_amount = amt, f_status = None, f_reason = None \<rparr>"
  have pending: "status (fst (createTransaction uuid now ?f d)) = Pending"
    by (simp add: createTransaction_fst)
  have not_found: "\<not> fst (updateCustomerBalance acc amt (snd (createTransaction uuid now ?f d)))"
    using missing by (simp add: updateCustomerBalance_fst)
  have returned: "transaction (fst (processDeposit uuid now acc amt d)) =
      last (transactions (snd (processDeposit uuid now acc amt d)))"
    by (simp add: processDeposit_def Let_def case_prod_beta)
  from pending not_found returned deposit_rejected [OF missing fr, of now amt]
  show "status (fst (createTransaction uuid now ?f d)) = Pending \<and>
     \<not> fst (updateCustomerBalance acc amt (snd (createTransaction uuid now ?f d))) \<and>
     \<not> success (fst (processDeposit uuid now acc amt d)) \<and>
     result_reason (fst (processDeposit uuid now acc amt d)) = None \<and>
     transactions (snd (processDeposit uuid now acc amt d)) =
       transactions d @ [transaction (fst (processDeposit uuid now acc amt d))] \<and>
     transaction (fst (processDeposit uuid now acc amt d)) =
       \<lparr> txn_id = uuid, timestamp = now, status = Failed, txn_accountNumber = acc,
         destinationAccount = None, txn_type = Deposit, amount = amt, reason = None \<rparr> \<and>
     customers (snd (processDeposit uuid now acc amt d)) = customers d"
    by (simp add: createTransaction_fst)
qed

theorem deposit_to_missing_account_witness:
  "getCustomerByAccountNumber ''99999'' (seed_db 0) = None \<and> fresh ''u4'' (seed_db 0) \<and>
   \<not> success (fst (processDeposit ''u4'' 1 ''99999'' 100 (seed_db 0))) \<and>
   status (transaction (fst (processDeposit ''u4'' 1 ''99999'' 100 (seed_db 0)))) = Failed \<and>
   length (transactions (snd (processDeposit ''u4'' 1 ''99999'' 100 (seed_db 0)))) = 4 \<and>
   customers (snd (processDeposit ''u4'' 1 ''99999'' 100 (seed_db 0))) = customers (seed_db 0)"
proof -
  have pre: "getCustomerByAccountNumber ''99999'' (seed_db 0) = None \<and> fresh ''u4'' (seed_db 0)"
    by (simp add: getCustomerByAccountNumber_def fresh_def seed_db_def)
  have len: "length (transactions (seed_db 0)) = 3"
    by (simp add: seed_db_def)
  from deposit_to_missing_account [of "''99999''" "seed_db 0" "''u4''" 1 100] pre len
  show ?thesis by simp
qed

text \<open>
  The claim's reason is not there: after a deposit of 100 to the unknown account
  99999 the record is failed and carries no reason, and the result carries none.
\<close>

theorem deposit_failure_has_no_reason:
  "getCustomerByAccountNumber ''99999'' (seed_db 0) = None \<and>
   status (transaction (fst (processDeposit ''u4'' 1 ''99999'' 100 (seed_db 0)))) = Failed \<and>
   reason (transaction (fst (processDeposit ''u4'' 1 ''99999'' 100 (seed_db 0)))) = None \<and>
   result_reason (fst (processDeposit ''u4'' 1 ''99999'' 100 (seed_db 0))) = None"
  by (simp add: eval_defs)

section \<open>Amounts that are not positive\<close>








section \<open>Balances that become negative\<close>

lemma update_first_Nil_iff [simp]: "update_first p f xs = [] \<longleftrightarrow> xs = []"
  by (cases xs) auto

lemma last_update_first_snoc:
  "last (update_first p f (xs @ [x])) = x \<or> last (update_first p f (xs @ [x])) = f x"
  by (induction xs) auto

lemma status_last_update:
  "status x \<noteq> Completed \<Longrightarrow> s \<noteq> Completed \<Longrightarrow>
   status (last (update_first p (\<lambda>t. t\<lparr>status := s\<rparr>) (xs @ [x]))) \<noteq> Completed"
  using last_update_first_snoc [of p "\<lambda>t. t\<lparr>status := s\<rparr>" xs x] by auto

text \<open>The returned record is completed only on the path that returns success.\<close>

lemma withdrawal_completed_success:
  "status (transaction (fst (processWithdrawal uuid now acc amt d))) = Completed \<Longrightarrow>
   success (fst (processWithdrawal uuid now acc amt d))"
  by (simp add: processWithdrawal_def Let_def case_prod_beta createTransaction_transactions
      createTransaction_fst updateTransactionStatus_transactions status_last_update
      split: if_splits)

lemma transfer_completed_success:
  "status (transaction (fst (processTransfer uuid now src dst amt d))) = Completed \<Longrightarrow>
   success (fst (processTransfer uuid now src dst amt d))"
  by (simp add: processTransfer_def Let_def case_prod_beta createTransaction_transactions
      createTransaction_fst updateTransactionStatus_transactions status_last_update
      split: if_splits)

lemma list_all2_update_first:
  "(\<And>x. R x x) \<Longrightarrow> (\<And>x. find p xs = Some x \<Longrightarrow> R x (f x)) \<Longrightarrow>
   list_all2 R xs (update_first p f xs)"
  by (induction xs) (auto simp: list_all2_refl split: if_splits)

lemma none_becomes_negative_trans:
  assumes "none_becomes_negative d d1" and "none_becomes_negative d1 d2"
  shows "none_becomes_negative d d2"
  unfolding none_becomes_negative_def
  by (rule list_all2_trans [OF _ assms(1) [unfolded none_becomes_negative_def]
        assms(2) [unfolded none_becomes_negative_def]]) auto

lemma none_becomes_negative_update:
  "(\<And>b. getCustomerBalance a d = Some b \<Longrightarrow> 0 \<le> b \<Longrightarrow> 0 \<le> b + k) \<Longrightarrow>
   none_becomes_negative d (snd (updateCustomerBalance a k d))"
  unfolding none_becomes_negative_def updateCustomerBalance_customers
  by (rule list_all2_update_first) (auto simp: getCustomerBalance_def)

lemma withdrawal_nonneg:
  assumes "success (fst (processWithdrawal uuid now acc amt d))"
  shows "none_becomes_negative d (snd (processWithdrawal uuid now acc amt d))"
proof -
  from assms obtain b where b: "getCustomerBalance acc d = Some b" "amt \<le> b"
    by (auto simp: processWithdrawal_def Let_def case_prod_beta split: if_splits option.splits)
  have "none_becomes_negative d (snd (updateCustomerBalance acc (- amt) d))"
    using b by (intro none_becomes_negative_update) auto
  moreover have "customers (snd (processWithdrawal uuid now acc amt d)) =
      customers (snd (updateCustomerBalance acc (- amt) d))"
    using b by (simp add: processWithdrawal_def Let_def case_prod_beta
        updateCustomerBalance_customers)
  ultimately show ?thesis
    by (simp add: none_becomes_negative_def)
qed

lemma transfer_nonneg:
  assumes "success (fst (processTransfer uuid now src dst amt d))" and "0 \<le> amt"
  shows "none_becomes_negative d (snd (processTransfer uuid now src dst amt d))"
proof -
  let ?d1 = "snd (updateCustomerBalance src (- amt) d)"
  let ?d2 = "snd (updateCustomerBalance dst amt ?d1)"
  from assms obtain b where b: "getCustomerBalance src d = Some b" "amt \<le> b"
    by (auto simp: processTransfer_def Let_def case_prod_beta split: if_splits option.splits)
  have 1: "none_becomes_negative d ?d1"
    using b by (intro none_becomes_negative_update) auto
  have 2: "none_becomes_negative ?d1 ?d2"
    using assms(2) by (intro none_becomes_negative_update) auto
  have "customers (snd (processTransfer uuid now src dst amt d)) = customers ?d2"
    using assms(1) by (simp add: processTransfer_def Let_def case_prod_beta
        updateCustomerBalance_customers split: if_splits)
  with none_becomes_negative_trans [OF 1 2] show ?thesis
    by (simp add: none_becomes_negative_def)
qed

lemma withdrawal_leaves_nonneg:
  assumes "success (fst (processWithdrawal uuid now acc amt d))"
  shows "(case getCustomerBalance acc (snd (processWithdrawal uuid now acc amt d)) of
            None \<Rightarrow> False | Some b \<Rightarrow> 0 \<le> b)"
proof -
  from assms obtain b where b: "getCustomerBalance acc d = Some b" "amt \<le> b"
    by (auto simp: processWithdrawal_def Let_def case_prod_beta split: if_splits option.splits)
  then have "getCustomerBalance acc (snd (processWithdrawal uuid now acc amt d)) = Some (b - amt)"
    by (simp add: processWithdrawal_def Let_def case_prod_beta updateCustomerBalance_balance)
  with b show ?thesis by simp
qed

lemma transfer_leaves_source_nonneg:
  assumes "success (fst (processTransfer uuid now src dst amt d))" and "src \<noteq> dst"
  shows "(case getCustomerBalance src (snd (processTransfer uuid now src dst amt d)) of
            None \<Rightarrow> False | Some b \<Rightarrow> 0 \<le> b)"
proof -
  from assms obtain b where b: "getCustomerBalance src d = Some b" "amt \<le> b"
    by (auto simp: processTransfer_def Let_def case_prod_beta split: if_splits option.splits)
  with assms have "getCustomerBalance src (snd (processTransfer uuid now src dst amt d)) =
      Some (b - amt)"
    by (simp add: processTransfer_def Let_def case_prod_beta updateCustomerBalance_balance
        updateCustomerBalance_fst split: if_splits)
  with b show ?thesis by simp
qed

text \<open>
  Claim C4, as the code has it. In every state reached from the seeded state by a
  sequence of calls (with any amounts), a withdrawal whose record is completed makes
  no account balance negative and leaves at least zero on the account debited,
  whatever its amount. A transfer whose record is completed leaves at least zero on
  the source when the destination is another account, whatever its amount, and makes
  no account balance negative when its amount is not negative. The restriction is
  needed: the amount is never checked for its sign, and a transfer of a negative
  amount passes the guard on the source and debits the destination, whose balance
  nothing guards.
\<close>

theorem completed_debit_keeps_balances_nonnegative:
  "(status (transaction (fst (processWithdrawal uuid now acc amt (run cs (seed_db t0))))) = Completed
      \<longrightarrow> none_becomes_negative (run cs (seed_db t0))
            (snd (processWithdrawal uuid now acc amt (run cs (seed_db t0)))) \<and>
          (case getCustomerBalance acc
                  (snd (processWithdrawal uuid now acc amt (run cs (seed_db t0)))) of
             None \<Rightarrow> False | Some b \<Rightarrow> 0 \<le> b)) \<and>
   (status (transaction (fst (processTransfer uuid now acc dst amt (run cs (seed_db t0))))) = Completed
      \<and> acc \<noteq> dst
      \<longrightarrow> (case getCustomerBalance acc
                  (snd (processTransfer uuid now acc dst amt (run cs (seed_db t0)))) of
             None \<Rightarrow> False | Some b \<Rightarrow> 0 \<le> b)) \<and>
   (0 \<le> amt \<and>
    status (transaction (fst (processTransfer uuid now acc dst amt (run cs (seed_db t0))))) = Completed
      \<longrightarrow> none_becomes_negative (run cs (seed_db t0))
            (snd (processTransfer uuid now acc dst amt (run cs (seed_db t0)))))"
  by (simp add: withdrawal_nonneg withdrawal_completed_success transfer_nonneg
      transfer_completed_success withdrawal_leaves_nonneg transfer_leaves_source_nonneg)

theorem completed_debit_keeps_balances_nonnegative_witness:
  "status (transaction (fst (processWithdrawal ''u5'' 2 ''10001'' 5100
      (run [((''u4'', 1), CallDeposit ''10001'' 100)] (seed_db 0))))) = Completed \<and>
   none_becomes_negative (run [((''u4'', 1), CallDeposit ''10001'' 100)] (seed_db 0))
     (snd (processWithdrawal ''u5'' 2 ''10001'' 5100
       (run [((''u4'', 1), CallDeposit ''10001'' 100)] (seed_db 0)))) \<and>
   getCustomerBalance ''10001'' (snd (processWithdrawal ''u5'' 2 ''10001'' 5100
       (run [((''u4'', 1), CallDeposit ''10001'' 100)] (seed_db 0)))) = Some 0 \<and>
   (0::int) \<le> 5100 \<and> ''10001'' \<noteq> ''10002'' \<and>
   status (transaction (fst (processTransfer ''u5'' 2 ''10001'' ''10002'' 5100
      (run [((''u4'', 1), CallDeposit ''10001'' 100)] (seed_db 0))))) = Completed \<and>
   none_becomes_negative (run [((''u4'', 1), CallDeposit ''10001'' 100)] (seed_db 0))
     (snd (processTransfer ''u5'' 2 ''10001'' ''10002'' 5100
       (run [((''u4'', 1), CallDeposit ''10001'' 100)] (seed_db 0)))) \<and>
   getCustomerBalance ''10001'' (snd (processTransfer ''u5'' 2 ''10001'' ''10002'' 5100
       (run [((''u4'', 1), CallDeposit ''10001'' 100)] (seed_db 0)))) = Some 0"
proof -
  have pre: "status (transaction (fst (processWithdrawal ''u5'' 2 ''10001'' 5100
        (run [((''u4'', 1), CallDeposit ''10001'' 100)] (seed_db 0))))) = Completed \<and>
      status (transaction (fst (processTransfer ''u5'' 2 ''10001'' ''10002'' 5100
        (run [((''u4'', 1), CallDeposit ''10001'' 100)] (seed_db 0))))) = Completed"
    by (simp add: eval_defs)
  have bal: "getCustomerBalance ''10001'' (snd (processWithdrawal ''u5'' 2 ''10001'' 5100
        (run [((''u4'', 1), CallDeposit ''10001'' 100)] (seed_db 0)))) = Some 0 \<and>
      getCustomerBalance ''10001'' (snd (processTransfer ''u5'' 2 ''10001'' ''10002'' 5100
        (run [((''u4'', 1), CallDeposit ''10001'' 100)] (seed_db 0)))) = Some 0"
    by (simp add: eval_defs)
  from completed_debit_keeps_balances_nonnegative
      [of "''u5''" 2 "''10001''" 5100 "[((''u4'', 1), CallDeposit ''10001'' 100)]" 0 "''10002''"]
    pre bal
  show ?thesis by simp
qed

text \<open>
  The claim as stated fails in the seeded state: a transfer of -10000 from account
  10001 to account 10002 is completed and takes the destination from 7500 to -2500.
\<close>

theorem negative_transfer_overdraws_destination:
  "status (transaction (fst (processTransfer ''u4'' 1 ''10001'' ''10002'' (- 10000) (seed_db 0))))
     = Completed \<and>
   success (fst (processTransfer ''u4'' 1 ''10001'' ''10002'' (- 10000) (seed_db 0))) \<and>
   getCustomerBalance ''10002'' (seed_db 0) = Some 7500 \<and>
   getCustomerBalance ''10002''
     (snd (processTransfer ''u4'' 1 ''10001'' ''10002'' (- 10000) (seed_db 0))) = Some (- 2500)"
  by (simp add: eval_defs)

section \<open>Sessions\<close>

lemma splice1_indexOf:
  "(case indexOf xs x of Some i \<Rightarrow> splice1 i xs | None \<Rightarrow> xs) = remove1 x xs"
  by (induction xs) (auto simp: splice1_def split: option.splits)

lemma trackSession_add:
  "sessions (snd (trackSession sid True d)) = sessions d @ [sid]"
  by (simp add: trackSession_def Let_def)

lemma trackSession_remove:
  "sessions (snd (trackSession sid False d)) = remove1 sid (sessions d)"
  using splice1_indexOf [of "sessions d" sid]
  by (auto simp add: trackSession_def Let_def split: option.splits)

lemma trackSession_count:
  "fst (trackSession sid active d) = length (sessions (snd (trackSession sid active d))) \<and>
   activeSessions (analytics (snd (trackSession sid active d))) =
     length (sessions (snd (trackSession sid active d)))"
  by (simp add: trackSession_def Let_def split: option.splits)

text \<open>
  Claim C9, as the code has it. \<^verbatim>\<open>db.sessions\<close> is an array, not a set.
  \<^verbatim>\<open>trackSession(id, true)\<close> pushes the identifier whether or not it is already there,
  so the count it returns is one more than the length before. \<^verbatim>\<open>trackSession(id,
  false)\<close> removes the first occurrence of the identifier and leaves the array as it is
  when there is none. After every call the count returned, which is also the stored
  \<open>activeSessions\<close>, is the length of the array: identifiers are counted as often as
  they occur.
\<close>

theorem trackSession_keeps_a_list:
  "sessions (snd (trackSession sid True d)) = sessions d @ [sid] \<and>
   fst (trackSession sid True d) = length (sessions d) + 1 \<and>
   sessions (snd (trackSession sid False d)) = remove1 sid (sessions d) \<and>
   (sid \<notin> set (sessions d) \<longrightarrow>
      sessions (snd (trackSession sid False d)) = sessions d \<and>
      fst (trackSession sid False d) = length (sessions d)) \<and>
   fst (trackSession sid active d) = length (sessions (snd (trackSession sid active d))) \<and>
   activeSessions (analytics (snd (trackSession sid active d))) = fst (trackSession sid active d)"
  using trackSession_count [of sid active d] trackSession_count [of sid True d]
    trackSession_count [of sid False d]
  by (simp add: trackSession_add trackSession_remove remove1_idem)

theorem trackSession_keeps_a_list_witness:
  "''s2'' \<notin> set (sessions (snd (trackSession ''s1'' True (seed_db 0)))) \<and>
   sessions (snd (trackSession ''s2'' False (snd (trackSession ''s1'' True (seed_db 0))))) =
     [''s1''] \<and>
   fst (trackSession ''s2'' False (snd (trackSession ''s1'' True (seed_db 0)))) = 1 \<and>
   sessions (snd (trackSession ''s1'' True (snd (trackSession ''s1'' True (seed_db 0))))) =
     [''s1'', ''s1''] \<and>
   sessions (snd (trackSession ''s1'' False (snd (trackSession ''s1'' True (seed_db 0))))) = []"
proof -
  have s1: "sessions (snd (trackSession ''s1'' True (seed_db 0))) = [''s1'']"
    by (simp add: trackSession_def seed_db_def Let_def)
  from trackSession_keeps_a_list
      [of "''s2''" "snd (trackSession ''s1'' True (seed_db 0))" False]
    trackSession_keeps_a_list
      [of "''s1''" "snd (trackSession ''s1'' True (seed_db 0))" True] s1
  show ?thesis by simp
qed

text \<open>
  The claim as stated fails: tracking the same identifier twice gives the count 2,
  while one distinct identifier is active.
\<close>

theorem trackSession_counts_duplicates:
  "fst (trackSession ''s1'' True (seed_db 0)) = 1 \<and>
   fst (trackSession ''s1'' True (snd (trackSession ''s1'' True (seed_db 0)))) = 2 \<and>
   card (set (sessions (snd (trackSession ''s1'' True (snd (trackSession ''s1'' True (seed_db 0)))))))
     = 1"
  by (simp add: trackSession_def seed_db_def Let_def)

section \<open>Transaction history of an account\<close>






end
